theory Spec2Isabelle
  imports Main
begin

section \<open>JavaScript values\<close>

text \<open>
  The handlers of \<^verbatim>\<open>app.js\<close> work on values that come out of \<^verbatim>\<open>JSON.parse\<close> (the webhook
  body, the search response, the configuration file): \<^verbatim>\<open>null\<close>, booleans, numbers, strings,
  arrays and objects, plus \<^verbatim>\<open>undefined\<close> for an absent property and the one built-in
  function value a property read of this program can produce. A number is carried by the
  text that \<^verbatim>\<open>ToString\<close> gives for it (\<^verbatim>\<open>0\<close> and \<^verbatim>\<open>-0\<close> are both \<open>''0''\<close>), which is
  all the program ever does with a number besides testing its truth. A string is the list of
  its code units.
\<close>

datatype jsval =
    JUndefined
  | JNull
  | JBool bool
  | JNum string
  | JStr string
  | JArr "jsval list"
  | JObj "(string \<times> jsval) list"
  | JFun string

text \<open>\<^verbatim>\<open>v == null\<close>: true of \<^verbatim>\<open>null\<close> and \<^verbatim>\<open>undefined\<close> only.\<close>

fun nullish :: "jsval \<Rightarrow> bool" where
  "nullish JUndefined = True"
| "nullish JNull = True"
| "nullish _ = False"

text \<open>\<^verbatim>\<open>if (v)\<close>: the truth of a value.\<close>

fun truthy :: "jsval \<Rightarrow> bool" where
  "truthy JUndefined = False"
| "truthy JNull = False"
| "truthy (JBool b) = b"
| "truthy (JNum t) = (t \<noteq> ''0'' \<and> t \<noteq> ''NaN'')"
| "truthy (JStr s) = (s \<noteq> [])"
| "truthy (JArr xs) = True"
| "truthy (JObj kvs) = True"
| "truthy (JFun n) = True"

text \<open>
  \<^verbatim>\<open>v.k\<close> on a value that is neither \<^verbatim>\<open>null\<close> nor \<^verbatim>\<open>undefined\<close>. An object yields its own
  property or \<^verbatim>\<open>undefined\<close>. Of the names this program reads (\<^verbatim>\<open>is_echo\<close>, \<^verbatim>\<open>mid\<close>,
  \<^verbatim>\<open>app_id\<close>, \<^verbatim>\<open>metadata\<close>, \<^verbatim>\<open>text\<close>, \<^verbatim>\<open>attachments\<close>, \<^verbatim>\<open>quick_reply\<close>, \<^verbatim>\<open>payload\<close>,
  \<^verbatim>\<open>items\<close>, \<^verbatim>\<open>title\<close>, \<^verbatim>\<open>snippet\<close>, \<^verbatim>\<open>link\<close>) only \<^verbatim>\<open>link\<close> is inherited by a primitive:
  \<^verbatim>\<open>String.prototype.link\<close>.
\<close>

fun js_prop :: "jsval \<Rightarrow> string \<Rightarrow> jsval" where
  "js_prop (JObj kvs) k = (case map_of kvs k of Some v \<Rightarrow> v | None \<Rightarrow> JUndefined)"
| "js_prop (JStr s) k = (if k = ''link'' then JFun ''link'' else JUndefined)"
| "js_prop _ k = JUndefined"

text \<open>
  An exception carries its message. The messages of the engine's own type errors are
  shortened here; no statement below depends on their wording.
\<close>

datatype exn = SyntaxError string | TypeError string | Error string

text \<open>\<^verbatim>\<open>v.k\<close> in general: reading a property of \<^verbatim>\<open>null\<close> or \<^verbatim>\<open>undefined\<close> throws.\<close>

definition get_prop :: "jsval \<Rightarrow> string \<Rightarrow> exn + jsval" where
  "get_prop v k =
     (if nullish v then Inl (TypeError (''Cannot read property '' @ k)) else Inr (js_prop v k))"

fun join :: "string \<Rightarrow> string list \<Rightarrow> string" where
  "join sep [] = []"
| "join sep [x] = x"
| "join sep (x # y # ys) = x @ sep @ join sep (y # ys)"

text \<open>
  The string a value turns into when it is concatenated to a string. An array joins its
  elements with commas (\<^verbatim>\<open>null\<close> and \<^verbatim>\<open>undefined\<close> elements give the empty string); a plain
  object gives \<^verbatim>\<open>[object Object]\<close>, unless it has a property \<^verbatim>\<open>toString\<close> of its own, which
  in a parsed object is never callable: then the conversion throws a \<^verbatim>\<open>TypeError\<close>
  (\<open>None\<close>).
\<close>

fun ToString :: "jsval \<Rightarrow> string option" where
  "ToString JUndefined = Some ''undefined''"
| "ToString JNull = Some ''null''"
| "ToString (JBool b) = Some (if b then ''true'' else ''false'')"
| "ToString (JNum t) = Some t"
| "ToString (JStr s) = Some s"
| "ToString (JArr xs) =
     map_option (join '','')
       (those (map (\<lambda>x. if nullish x then Some [] else ToString x) xs))"
| "ToString (JObj kvs) =
     (if ''toString'' \<in> set (map fst kvs) then None else Some ''[object Object]'')"
| "ToString (JFun n) = Some (''function '' @ n @ ''() { [native code] }'')"

text \<open>\<^verbatim>\<open>xs[i]\<close> on an array: \<^verbatim>\<open>undefined\<close> beyond its length.\<close>

definition js_index :: "jsval list \<Rightarrow> nat \<Rightarrow> jsval" where
  "js_index xs i = (if i < length xs then xs ! i else JUndefined)"

text \<open>\<^verbatim>\<open>s.startsWith(p)\<close>.\<close>

definition startsWith :: "string \<Rightarrow> string \<Rightarrow> bool" where
  "startsWith s p = (take (length p) s = p)"

text \<open>The decimal text of a non-negative integer (the loop index, an array length).\<close>

definition digit :: "nat \<Rightarrow> char" where
  "digit n = ''0123456789'' ! n"

fun string_of_nat :: "nat \<Rightarrow> string" where
  "string_of_nat n =
     (if n < 10 then [digit n] else string_of_nat (n div 10) @ [digit (n mod 10)])"

declare string_of_nat.simps [simp del]

section \<open>Configuration and start-up\<close>

text \<open>
  Lines 41--68. Each of the five values is taken from the environment when the variable is
  set to a non-empty string, and from \<^verbatim>\<open>config.get\<close> otherwise. \<^verbatim>\<open>config.get\<close> belongs to
  the \<^verbatim>\<open>config\<close> package: it is a parameter here, a function that returns a value or throws.
\<close>

record config =
  APP_SECRET :: jsval
  VALIDATION_TOKEN :: jsval
  PAGE_ACCESS_TOKEN :: jsval
  SERVER_URL :: jsval
  SEARCH_URL :: jsval

type_synonym environment = "string \<Rightarrow> string option"
type_synonym config_get = "string \<Rightarrow> exn + jsval"

text \<open>\<^verbatim>\<open>(process.env.V) ? process.env.V : config.get(k)\<close>\<close>

definition setting :: "environment \<Rightarrow> config_get \<Rightarrow> string \<Rightarrow> string \<Rightarrow> exn + jsval" where
  "setting env cget v k =
     (case env v of
        Some s \<Rightarrow> if s \<noteq> [] then Inr (JStr s) else cget k
      | None \<Rightarrow> cget k)"

datatype startup =
    Crashed exn
  | Exited nat
  | Started config

text \<open>
  The module's top level up to line 68: the five settings in order (a throwing
  \<^verbatim>\<open>config.get\<close> ends the process with an uncaught exception), then the guard of line 65,
  which names four of the five.
\<close>

definition startup :: "environment \<Rightarrow> config_get \<Rightarrow> startup" where
  "startup env cget =
     (case setting env cget ''MESSENGER_APP_SECRET'' ''appSecret'' of
        Inl e \<Rightarrow> Crashed e
      | Inr app_secret \<Rightarrow>
     (case setting env cget ''MESSENGER_VALIDATION_TOKEN'' ''validationToken'' of
        Inl e \<Rightarrow> Crashed e
      | Inr validation_token \<Rightarrow>
     (case setting env cget ''MESSENGER_PAGE_ACCESS_TOKEN'' ''pageAccessToken'' of
        Inl e \<Rightarrow> Crashed e
      | Inr page_access_token \<Rightarrow>
     (case setting env cget ''SERVER_URL'' ''serverURL'' of
        Inl e \<Rightarrow> Crashed e
      | Inr server_url \<Rightarrow>
     (case setting env cget ''SEARCH_URL'' ''searchURL'' of
        Inl e \<Rightarrow> Crashed e
      | Inr search_url \<Rightarrow>
        if \<not> (truthy app_secret \<and> truthy validation_token \<and>
                truthy page_access_token \<and> truthy server_url)
        then Exited 1
        else Started \<lparr>APP_SECRET = app_secret, VALIDATION_TOKEN = validation_token,
                       PAGE_ACCESS_TOKEN = page_access_token, SERVER_URL = server_url,
                       SEARCH_URL = search_url\<rparr>)))))"

section \<open>Effects\<close>

text \<open>
  What a handler does is the sequence of its calls to the outside: console output, posts to
  the platform's send endpoint, the search request and the page request. A handler run is
  that sequence together with the exception that ended it, if one did.
\<close>

record quick_reply =
  content_type :: string
  title :: string
  payload :: jsval

text \<open>
  The three shapes of \<^verbatim>\<open>messageData\<close>: \<^verbatim>\<open>{recipient: {id}, message: {text, metadata}}\<close>,
  \<^verbatim>\<open>{recipient: {id}, message: {text, quick_replies}}\<close> and
  \<^verbatim>\<open>{recipient: {id}, sender_action}\<close>.
\<close>

datatype message_data =
    TextMessage jsval string string
  | QuickReplyMessage jsval string "quick_reply list"
  | SenderAction jsval string

text \<open>
  An argument of a console call: a string, a value handed to the formatter, or
  \<^verbatim>\<open>JSON.stringify\<close> of a value.
\<close>

datatype logval = LStr string | LVal jsval | LJson jsval

datatype effect =
    ConsoleLog "logval list"
  | ConsoleError "logval list"
  | ConsoleErr "logval list"
  | SendAPI jsval message_data
  | HttpsGet string
  | RequestGet jsval

type_synonym run = "effect list \<times> exn option"

text \<open>Sequencing: what follows a run happens only when no exception ended it.\<close>

definition and_then :: "run \<Rightarrow> run \<Rightarrow> run" where
  "and_then a b =
     (case snd a of
        None \<Rightarrow> (fst a @ fst b, snd b)
      | Some e \<Rightarrow> a)"

text \<open>
  The parts of the runtime that are not this repository's code: whether \<^verbatim>\<open>console.err\<close> is a
  function (Node's console has \<^verbatim>\<open>log\<close> and \<^verbatim>\<open>error\<close>, and no \<^verbatim>\<open>err\<close>), \<^verbatim>\<open>JSON.parse\<close>
  (\<open>Inl\<close>: it throws a \<^verbatim>\<open>SyntaxError\<close> with that message) and \<^verbatim>\<open>sanitizeHtml\<close> with the options
  of line 485.
\<close>

record runtime =
  console_err :: bool
  JSON_parse :: "string \<Rightarrow> string + jsval"
  sanitizeHtml :: "string \<Rightarrow> string"

text \<open>
  \<^verbatim>\<open>console.err(args)\<close>: a call of \<^verbatim>\<open>undefined\<close> throws a \<^verbatim>\<open>TypeError\<close>.
\<close>

definition call_console_err :: "runtime \<Rightarrow> logval list \<Rightarrow> run" where
  "call_console_err rt args =
     (if console_err rt then ([ConsoleErr args], None)
      else ([], Some (TypeError ''console.err is not a function'')))"

section \<open>The Send API wrappers\<close>

text \<open>
  Lines 446--471. \<^verbatim>\<open>callSendAPI\<close> posts the message data with the page access token; its
  completion callback only writes to the console and is left out of the run.
\<close>

definition callSendAPI :: "config \<Rightarrow> message_data \<Rightarrow> effect list" where
  "callSendAPI cfg messageData = [SendAPI (PAGE_ACCESS_TOKEN cfg) messageData]"

definition sendTextMessage :: "config \<Rightarrow> jsval \<Rightarrow> string \<Rightarrow> effect list" where
  "sendTextMessage cfg recipientId messageText =
     callSendAPI cfg (TextMessage recipientId messageText ''DEVELOPER_DEFINED_METADATA'')"

definition sendQuickReply :: "config \<Rightarrow> jsval \<Rightarrow> string \<Rightarrow> jsval list \<Rightarrow> effect list" where
  "sendQuickReply cfg recipientId message urlArray =
     callSendAPI cfg (QuickReplyMessage recipientId message
       [\<lparr>content_type = ''text'', title = ''1'', payload = js_index urlArray 0\<rparr>,
        \<lparr>content_type = ''text'', title = ''2'', payload = js_index urlArray 1\<rparr>,
        \<lparr>content_type = ''text'', title = ''3'', payload = js_index urlArray 2\<rparr>,
        \<lparr>content_type = ''text'', title = ''4'', payload = js_index urlArray 3\<rparr>,
        \<lparr>content_type = ''text'', title = ''5'', payload = js_index urlArray 4\<rparr>,
        \<lparr>content_type = ''text'', title = ''6'', payload = js_index urlArray 5\<rparr>,
        \<lparr>content_type = ''text'', title = ''7'', payload = js_index urlArray 6\<rparr>,
        \<lparr>content_type = ''text'', title = ''8'', payload = js_index urlArray 7\<rparr>,
        \<lparr>content_type = ''text'', title = ''9'', payload = js_index urlArray 8\<rparr>,
        \<lparr>content_type = ''text'', title = ''10'', payload = js_index urlArray 9\<rparr>])"

definition sendTypingOn :: "config \<Rightarrow> jsval \<Rightarrow> effect list" where
  "sendTypingOn cfg recipientId =
     ConsoleLog [LStr ''Turning typing indicator on''] #
     callSendAPI cfg (SenderAction recipientId ''typing_on'')"

definition sendTypingOff :: "config \<Rightarrow> jsval \<Rightarrow> effect list" where
  "sendTypingOff cfg recipientId =
     ConsoleLog [LStr ''Turning typing indicator off''] #
     callSendAPI cfg (SenderAction recipientId ''typing_off'')"

section \<open>The page fetch\<close>

text \<open>
  Lines 474--513. What \<^verbatim>\<open>request\<close> hands to the callback is a parameter: nothing (the
  request never completes), an error, or a response with its status code and body.
\<close>

datatype request_outcome =
    RequestPending
  | RequestError string
  | RequestResponse nat string

definition httpGet :: "runtime \<Rightarrow> config \<Rightarrow> jsval \<Rightarrow> jsval \<Rightarrow> request_outcome \<Rightarrow> effect list" where
  "httpGet rt cfg senderID url req =
     [ConsoleLog [LStr ''httpGet: Fetching: %s'', LVal url], RequestGet url] @
     (case req of
        RequestPending \<Rightarrow> []
      | RequestError err \<Rightarrow>
          [ConsoleError [LStr ''Failed calling httpGet from: %s'', LVal url]]
      | RequestResponse statusCode body \<Rightarrow>
          if statusCode = 200 then
            ConsoleLog [LStr ''httpGet: Successfully received response from: %s'', LVal url] #
            (let text = sanitizeHtml rt body in
             if length text < 2000 then sendTextMessage cfg senderID text
             else sendTextMessage cfg senderID (take 2000 text))
          else [ConsoleError [LStr ''Failed calling httpGet from: %s'', LVal url]])"

section \<open>The search\<close>

text \<open>
  Lines 273--280, the body of \<^verbatim>\<open>forEach\<close> on the state \<open>(index, total', links)\<close>. Reading
  \<^verbatim>\<open>item.title\<close> throws on a \<^verbatim>\<open>null\<close> item, and so does the concatenation of a value that has
  no string conversion.
\<close>

definition forEach_body ::
  "nat \<times> string \<times> jsval list \<Rightarrow> jsval \<Rightarrow> exn + nat \<times> string \<times> jsval list" where
  "forEach_body st item =
     (case st of (index, total', links) \<Rightarrow>
       (case get_prop item ''title'' of
          Inl e \<Rightarrow> Inl e
        | Inr item_title \<Rightarrow>
       (case ToString item_title of
          None \<Rightarrow> Inl (TypeError ''Cannot convert object to primitive value'')
        | Some t \<Rightarrow>
       (case ToString (js_prop item ''snippet'') of
          None \<Rightarrow> Inl (TypeError ''Cannot convert object to primitive value'')
        | Some sn \<Rightarrow>
            Inr (index + 1,
                 (if index \<noteq> 1 then total' @ ''\<newline>\<newline>'' else total') @
                   string_of_nat index @ ''. '' @ t @ ''\<newline>\<newline>'' @ sn,
                 links @ [js_prop item ''link''])))))"

fun forEach ::
  "nat \<times> string \<times> jsval list \<Rightarrow> jsval list \<Rightarrow> exn + nat \<times> string \<times> jsval list" where
  "forEach st [] = Inr st"
| "forEach st (item # items) =
     (case forEach_body st item of
        Inl e \<Rightarrow> Inl e
      | Inr st' \<Rightarrow> forEach st' items)"

definition zero_results_text :: string where
  \<open>zero_results_text =
     ''Thanks for trying out this bot. Please bear with us as we already exceeded the total daily number of searches allowable by Google (by a single app). The bot will work again at 4 p.m. Philippine time when Google resets the daily limit.\<newline>\<newline>In the meantime, you may also use this as a primitive web browser. Just send a link (e.g. "http://phmountains.com") and the bot will respond with the text-only version of the website.''\<close>

definition oops_text :: string where
  "oops_text = ''Oops! An error was encountered. Please try again.''"

definition help_text :: string where
  \<open>help_text =
     ''Search the Internet for free! You may also get the text contents of a website by sending us the complete http link (e.g. "https://phmountains.com").''\<close>

text \<open>
  Lines 266--301, the \<^verbatim>\<open>try\<close> block. \<^verbatim>\<open>obj.items != null\<close> lets everything through but
  \<^verbatim>\<open>null\<close> and \<^verbatim>\<open>undefined\<close>; a value that is not an array has no callable \<^verbatim>\<open>forEach\<close>.
\<close>

definition search_try :: "runtime \<Rightarrow> config \<Rightarrow> jsval \<Rightarrow> string \<Rightarrow> string \<Rightarrow> run" where
  "search_try rt cfg senderID messageText data =
     (case JSON_parse rt data of
        Inl m \<Rightarrow> ([], Some (SyntaxError m))
      | Inr obj \<Rightarrow>
     (case get_prop obj ''items'' of
        Inl e \<Rightarrow> ([], Some e)
      | Inr items \<Rightarrow>
          if \<not> nullish items then
            (case items of
               JArr xs \<Rightarrow>
                 (case forEach (1, [], []) xs of
                    Inl e \<Rightarrow> ([], Some e)
                  | Inr (index, total', links) \<Rightarrow>
                      (ConsoleLog [LStr (''Googled '' @ messageText @ '': '' @
                                         string_of_nat (length xs) @ '' results'')] #
                       (if length total' < 2000 then sendQuickReply cfg senderID total' links
                        else sendQuickReply cfg senderID (take 2000 total') links),
                       None))
             | _ \<Rightarrow> ([], Some (TypeError ''obj.items.forEach is not a function'')))
          else
            (ConsoleLog [LStr (''Googled '' @ messageText @ '': ZERO results'')] #
             sendTextMessage cfg senderID zero_results_text,
             None)))"

fun message_of :: "exn \<Rightarrow> string" where
  "message_of (SyntaxError m) = m"
| "message_of (TypeError m) = m"
| "message_of (Error m) = m"

text \<open>Lines 303--306, the \<^verbatim>\<open>catch\<close> block.\<close>

definition search_catch :: "runtime \<Rightarrow> config \<Rightarrow> jsval \<Rightarrow> exn \<Rightarrow> run" where
  "search_catch rt cfg senderID e =
     and_then (call_console_err rt [LStr (''Error: '' @ message_of e)])
       (sendTextMessage cfg senderID oops_text, None)"

definition try_catch :: "run \<Rightarrow> (exn \<Rightarrow> run) \<Rightarrow> run" where
  "try_catch body handler =
     (case snd body of
        None \<Rightarrow> body
      | Some e \<Rightarrow> (fst body @ fst (handler e), snd (handler e)))"

text \<open>Lines 260--307, the handler of the response's \<^verbatim>\<open>end\<close> event.\<close>

definition search_on_end :: "runtime \<Rightarrow> config \<Rightarrow> jsval \<Rightarrow> string \<Rightarrow> string \<Rightarrow> run" where
  "search_on_end rt cfg senderID messageText data =
     and_then (ConsoleLog [LStr data] # sendTypingOff cfg senderID, None)
       (try_catch (search_try rt cfg senderID messageText data)
          (search_catch rt cfg senderID))"

text \<open>Lines 309--313, the handler of the request's \<^verbatim>\<open>error\<close> event.\<close>

definition search_on_error :: "runtime \<Rightarrow> config \<Rightarrow> jsval \<Rightarrow> string \<Rightarrow> run" where
  "search_on_error rt cfg senderID msg =
     and_then (call_console_err rt [LStr (''Error: '' @ msg)])
       (sendTypingOff cfg senderID @ sendTextMessage cfg senderID (''Error: '' @ msg), None)"

text \<open>
  What becomes of the search request is a parameter: nothing, the response's chunks followed
  by its end, or an error with its message.
\<close>

datatype https_outcome =
    HttpsPending
  | HttpsEnd "string list"
  | HttpsError string

text \<open>
  Lines 251--313: the request for \<^verbatim>\<open>SEARCH_URL + messageText\<close>, and what its callbacks do.
\<close>

definition https_get_search ::
  "runtime \<Rightarrow> config \<Rightarrow> jsval \<Rightarrow> string \<Rightarrow> https_outcome \<Rightarrow> run" where
  "https_get_search rt cfg senderID messageText net =
     (case ToString (SEARCH_URL cfg) of
        None \<Rightarrow> ([], Some (TypeError ''Cannot convert object to primitive value''))
      | Some base \<Rightarrow>
          and_then ([HttpsGet (base @ messageText)], None)
            (case net of
               HttpsPending \<Rightarrow> ([], None)
             | HttpsEnd chunks \<Rightarrow>
                 search_on_end rt cfg senderID messageText
                   (foldl (\<lambda>data chunk. data @ chunk) [] chunks)
             | HttpsError msg \<Rightarrow> search_on_error rt cfg senderID msg))"

section \<open>The message handler\<close>

text \<open>
  An event as \<^verbatim>\<open>receivedMessage\<close> reads it: \<^verbatim>\<open>event.sender.id\<close>, \<^verbatim>\<open>event.recipient.id\<close>,
  \<^verbatim>\<open>event.timestamp\<close> and \<^verbatim>\<open>event.message\<close>. The envelope of a messaging event always has a
  sender and a recipient; the message is any value, and the webhook calls the handler when
  it is truthy (line 109).
\<close>

record event =
  sender_id :: jsval
  recipient_id :: jsval
  timestamp :: jsval
  message :: jsval

text \<open>Lines 206--319.\<close>

definition receivedMessage ::
  "runtime \<Rightarrow> config \<Rightarrow> event \<Rightarrow> https_outcome \<Rightarrow> request_outcome \<Rightarrow> run" where
  "receivedMessage rt cfg ev net req =
     (let senderID = sender_id ev;
          recipientID = recipient_id ev;
          timeOfMessage = timestamp ev;
          msg = message ev
      in
      and_then
        ([ConsoleLog [LStr ''Received message for user %d and page %d at %d with message:'',
                      LVal senderID, LVal recipientID, LVal timeOfMessage],
          ConsoleLog [LJson msg]], None)
        (if nullish msg then ([], Some (TypeError ''Cannot read property is_echo''))
         else
           let isEcho = js_prop msg ''is_echo'';
               messageId = js_prop msg ''mid'';
               appId = js_prop msg ''app_id'';
               metadata = js_prop msg ''metadata'';
               messageText = js_prop msg ''text'';
               messageAttachments = js_prop msg ''attachments'';
               quickReply = js_prop msg ''quick_reply''
           in
           if truthy isEcho then
             ([ConsoleLog [LStr ''Received echo for message %s and app %d with metadata %s'',
                           LVal messageId, LVal appId, LVal metadata]], None)
           else if truthy quickReply then
             (let quickReplyPayload = js_prop quickReply ''payload'' in
              (ConsoleLog [LStr ''Quick reply for message %s with payload %s'',
                           LVal messageId, LVal quickReplyPayload] #
               httpGet rt cfg senderID quickReplyPayload req, None))
           else if truthy messageText then
             and_then (sendTypingOn cfg senderID, None)
               (case messageText of
                  JStr s \<Rightarrow>
                    if startsWith s ''http://'' \<or> startsWith s ''https://'' then
                      (httpGet rt cfg senderID messageText req, None)
                    else https_get_search rt cfg senderID s net
                | _ \<Rightarrow> ([], Some (TypeError ''messageText.startsWith is not a function'')))
           else if truthy messageAttachments then
             (sendTextMessage cfg senderID help_text, None)
           else ([], None)))"

section \<open>Reading a run\<close>

text \<open>The message data posted to the send endpoint, in order.\<close>

fun sent :: "effect list \<Rightarrow> message_data list" where
  "sent [] = []"
| "sent (SendAPI token md # es) = md # sent es"
| "sent (e # es) = sent es"

text \<open>The URLs the search client was asked for, and those the page fetch was asked for.\<close>

fun search_calls :: "effect list \<Rightarrow> string list" where
  "search_calls [] = []"
| "search_calls (HttpsGet url # es) = url # search_calls es"
| "search_calls (e # es) = search_calls es"

fun fetch_calls :: "effect list \<Rightarrow> jsval list" where
  "fetch_calls [] = []"
| "fetch_calls (RequestGet url # es) = url # fetch_calls es"
| "fetch_calls (e # es) = fetch_calls es"

text \<open>A message proper (text or quick replies), as opposed to a sender action.\<close>

fun is_message :: "message_data \<Rightarrow> bool" where
  "is_message (SenderAction r a) = False"
| "is_message _ = True"

definition messages :: "effect list \<Rightarrow> message_data list" where
  "messages es = filter is_message (sent es)"

text \<open>The text of each message proper, in order.\<close>

fun delivered_texts :: "effect list \<Rightarrow> string list" where
  "delivered_texts [] = []"
| "delivered_texts (SendAPI token (TextMessage r t m) # es) = t # delivered_texts es"
| "delivered_texts (SendAPI token (QuickReplyMessage r t qs) # es) = t # delivered_texts es"
| "delivered_texts (e # es) = delivered_texts es"

text \<open>The sender actions posted, each with its recipient, in order.\<close>

fun sender_actions :: "effect list \<Rightarrow> (jsval \<times> string) list" where
  "sender_actions [] = []"
| "sender_actions (SendAPI token (SenderAction r a) # es) = (r, a) # sender_actions es"
| "sender_actions (e # es) = sender_actions es"

text \<open>The console calls that report a failure (\<^verbatim>\<open>console.error\<close>, \<^verbatim>\<open>console.err\<close>).\<close>

fun error_logs :: "effect list \<Rightarrow> logval list list" where
  "error_logs [] = []"
| "error_logs (ConsoleError args # es) = args # error_logs es"
| "error_logs (ConsoleErr args # es) = args # error_logs es"
| "error_logs (e # es) = error_logs es"

text \<open>The part of a run before the page request, and before the search request.\<close>

fun before_fetch :: "effect list \<Rightarrow> effect list" where
  "before_fetch [] = []"
| "before_fetch (RequestGet url # es) = []"
| "before_fetch (e # es) = e # before_fetch es"

fun before_search :: "effect list \<Rightarrow> effect list" where
  "before_search [] = []"
| "before_search (HttpsGet url # es) = []"
| "before_search (e # es) = e # before_search es"

fun after_search :: "effect list \<Rightarrow> effect list" where
  "after_search [] = []"
| "after_search (HttpsGet url # es) = es"
| "after_search (e # es) = after_search es"

section \<open>The reply format in the specification's words\<close>

text \<open>
  For each item a 1-based index, the title and the snippet; blank lines between items. A row
  is the title text, the snippet text and the link of one item.
\<close>

definition spec_entry :: "nat \<Rightarrow> string \<Rightarrow> string \<Rightarrow> string" where
  "spec_entry i t sn = string_of_nat i @ ''. '' @ t @ ''\<newline>\<newline>'' @ sn"

fun spec_entries :: "nat \<Rightarrow> (string \<times> string \<times> jsval) list \<Rightarrow> string list" where
  "spec_entries i [] = []"
| "spec_entries i ((t, sn, l) # rows) = spec_entry i t sn # spec_entries (Suc i) rows"

definition spec_reply_text :: "(string \<times> string \<times> jsval) list \<Rightarrow> string" where
  "spec_reply_text rows = join ''\<newline>\<newline>'' (spec_entries 1 rows)"

definition spec_links :: "(string \<times> string \<times> jsval) list \<Rightarrow> jsval list" where
  "spec_links rows = map (\<lambda>(t, sn, l). l) rows"

text \<open>An item read as a row: it is not \<^verbatim>\<open>null\<close>, and its title and snippet have these texts.\<close>

definition item_row :: "jsval \<Rightarrow> string \<times> string \<times> jsval \<Rightarrow> bool" where
  "item_row item row =
     (case row of (t, sn, l) \<Rightarrow>
        \<not> nullish item \<and> ToString (js_prop item ''title'') = Some t \<and>
        ToString (js_prop item ''snippet'') = Some sn \<and> js_prop item ''link'' = l)"

section \<open>Sample inputs\<close>

text \<open>
  Concrete inputs for the instances below. The sample parser is \<^verbatim>\<open>JSON.parse\<close> on the few
  texts listed and rejects every other text; the sample sanitizer drops what stands between
  angle brackets.
\<close>

definition sample_config :: config where
  "sample_config =
     \<lparr>APP_SECRET = JStr ''secret'', VALIDATION_TOKEN = JStr ''token'',
      PAGE_ACCESS_TOKEN = JStr ''page-token'', SERVER_URL = JStr ''https://bot.example'',
      SEARCH_URL = JStr ''https://search.example/?q=''\<rparr>"

definition two_items :: "jsval list" where
  "two_items =
     [JObj [(''title'', JStr ''A''), (''snippet'', JStr ''B''), (''link'', JStr ''L1'')],
      JObj [(''title'', JStr ''C''), (''snippet'', JStr ''D''), (''link'', JStr ''L2'')]]"

definition long_title :: string where
  "long_title = replicate 2500 (CHR ''a'')"

definition long_items :: "jsval list" where
  "long_items =
     [JObj [(''title'', JStr long_title), (''snippet'', JStr ''B''), (''link'', JStr ''L1'')]]"

definition long_body :: string where
  \<open>long_body = ''{"items":[{"title":"'' @ long_title @ ''","snippet":"B","link":"L1"}]}''\<close>

definition JSON_parse_sample :: "string \<Rightarrow> string + jsval" where
  \<open>JSON_parse_sample s =
     (if s = long_body then Inr (JObj [(''items'', JArr long_items)])
      else if s = ''{"items":[{"title":"A","snippet":"B","link":"L1"},{"title":"C","snippet":"D","link":"L2"}]}''
        then Inr (JObj [(''items'', JArr two_items)])
      else if s = ''{"items":[]}'' then Inr (JObj [(''items'', JArr [])])
      else if s = ''{"items":null}'' then Inr (JObj [(''items'', JNull)])
      else if s = ''{}'' then Inr (JObj [])
      else Inl ''Unexpected token'')\<close>

fun strip_tags :: "bool \<Rightarrow> string \<Rightarrow> string" where
  "strip_tags in_tag [] = []"
| "strip_tags in_tag (c # cs) =
     (if in_tag then strip_tags (c \<noteq> CHR ''>'') cs
      else if c = CHR ''<'' then strip_tags True cs
      else c # strip_tags False cs)"

text \<open>Node as it is, and a runtime whose console has been given an \<^verbatim>\<open>err\<close> method.\<close>

definition node_sample :: runtime where
  "node_sample =
     \<lparr>console_err = False, JSON_parse = JSON_parse_sample, sanitizeHtml = strip_tags False\<rparr>"

definition patched_sample :: runtime where
  "patched_sample =
     \<lparr>console_err = True, JSON_parse = JSON_parse_sample, sanitizeHtml = strip_tags False\<rparr>"

text \<open>A message event from sender \<open>''42''\<close> with the given message object.\<close>

definition sample_event :: "jsval \<Rightarrow> event" where
  "sample_event msg =
     \<lparr>sender_id = JStr ''42'', recipient_id = JStr ''7'', timestamp = JNum ''1458692752478'',
      message = msg\<rparr>"

definition text_message :: "string \<Rightarrow> jsval" where
  "text_message s = JObj [(''mid'', JStr ''mid.1''), (''text'', JStr s)]"

definition quick_reply_message :: "string \<Rightarrow> string \<Rightarrow> jsval" where
  "quick_reply_message s p =
     JObj [(''mid'', JStr ''mid.2''), (''text'', JStr s),
           (''quick_reply'', JObj [(''payload'', JStr p)])]"

text \<open>No environment variable set; a configuration file with an empty \<^verbatim>\<open>searchURL\<close>.\<close>

definition empty_environment :: environment where
  "empty_environment v = None"

definition config_file_sample :: config_get where
  "config_file_sample k =
     (if k = ''appSecret'' then Inr (JStr ''secret'')
      else if k = ''validationToken'' then Inr (JStr ''token'')
      else if k = ''pageAccessToken'' then Inr (JStr ''page-token'')
      else if k = ''serverURL'' then Inr (JStr ''https://bot.example'')
      else if k = ''searchURL'' then Inr (JStr [])
      else Inl (Error ''Configuration property is not defined''))"

section \<open>Start-up\<close>

text \<open>
  The guard of line 65 covers four settings: a process that starts has a truthy value for
  each of them.
\<close>

lemma startup_guard:
  assumes "startup env cget = Started cfg"
  shows "truthy (APP_SECRET cfg) \<and> truthy (VALIDATION_TOKEN cfg) \<and>
         truthy (PAGE_ACCESS_TOKEN cfg) \<and> truthy (SERVER_URL cfg)"
  using assms by (auto simp: startup_def split: sum.splits if_splits)

text \<open>
  C3. The process is to refuse to start when any of the five configuration values is
  missing. With no environment variable set and a configuration file whose \<^verbatim>\<open>searchURL\<close> is
  the empty string (and whose four other values are set), the process starts, with an empty
  \<^verbatim>\<open>SEARCH_URL\<close>: the guard does not name that setting.
\<close>

theorem C3_search_url_unchecked:
  "startup empty_environment config_file_sample =
     Started \<lparr>APP_SECRET = JStr ''secret'', VALIDATION_TOKEN = JStr ''token'',
              PAGE_ACCESS_TOKEN = JStr ''page-token'', SERVER_URL = JStr ''https://bot.example'',
              SEARCH_URL = JStr []\<rparr>"
  by (simp add: startup_def setting_def empty_environment_def config_file_sample_def)

section \<open>Quick replies\<close>

lemma map_index_upt:
  "map (js_index xs) [0..<n] = take n xs @ replicate (n - length xs) JUndefined"
proof (induction n)
  case 0
  then show ?case by simp
next
  case (Suc n)
  show ?case
  proof (cases "n < length xs")
    case True
    then show ?thesis using Suc by (simp add: js_index_def take_Suc_conv_app_nth)
  next
    case False
    then have "Suc n - length xs = Suc (n - length xs)" by simp
    then show ?thesis using Suc False
      by (simp add: js_index_def replicate_append_same)
  qed
qed

lemma upt_10: "[0..<10] = [0, 1, 2, 3, 4, 5, 6, 7, 8, 9::nat]"
  by (simp add: upt_rec)

lemma titles_1_10:
  "map string_of_nat [1..<11] =
     [''1'', ''2'', ''3'', ''4'', ''5''] @ [''6'', ''7'', ''8'', ''9'', ''10'']"
  by (simp add: upt_rec string_of_nat.simps digit_def)

lemma payloads_0_9:
  "[js_index links 0, js_index links 1, js_index links 2, js_index links 3,
    js_index links 4, js_index links 5, js_index links 6, js_index links 7,
    js_index links 8, js_index links 9] =
   take 10 links @ replicate (10 - length links) JUndefined"
proof -
  have "[js_index links 0, js_index links 1, js_index links 2, js_index links 3,
         js_index links 4, js_index links 5, js_index links 6, js_index links 7,
         js_index links 8, js_index links 9] = map (js_index links) [0..<10]"
    by (simp only: upt_10 list.map)
  then show ?thesis
    by (simp only: map_index_upt)
qed

lemma replicate_10: "replicate 10 x = [x, x, x, x, x] @ [x, x, x, x, x]"
  by (simp add: eval_nat_numeral)

text \<open>
  C8. A quick-reply message has exactly ten buttons, titled with the numbers 1 to 10 in
  order; their payloads are the first ten links in order, and \<^verbatim>\<open>undefined\<close> from the end of
  a shorter list on.
\<close>

theorem C8_ten_buttons:
  "\<exists>qrs. sendQuickReply cfg recipientId message_text links =
           [SendAPI (PAGE_ACCESS_TOKEN cfg) (QuickReplyMessage recipientId message_text qrs)] \<and>
         length qrs = 10 \<and>
         map title qrs = map string_of_nat [1..<11] \<and>
         map content_type qrs = replicate 10 ''text'' \<and>
         map payload qrs = take 10 links @ replicate (10 - length links) JUndefined"
  unfolding sendQuickReply_def callSendAPI_def
  apply (intro exI conjI)
      apply (rule refl)
     apply simp
    apply (simp add: titles_1_10 del: One_nat_def)
   apply (simp add: replicate_10)
  apply (simp add: payloads_0_9 del: One_nat_def)
  done

section \<open>Page fetch failures\<close>

text \<open>
  C9. When the page request errors or its response has a status other than 200, the handler
  writes the failure to the console and posts nothing to the sender.
\<close>

theorem C9_fetch_failure_silent:
  assumes "req = RequestError err \<or> (req = RequestResponse statusCode body \<and> statusCode \<noteq> 200)"
  shows "httpGet rt cfg senderID url req =
           [ConsoleLog [LStr ''httpGet: Fetching: %s'', LVal url], RequestGet url,
            ConsoleError [LStr ''Failed calling httpGet from: %s'', LVal url]] \<and>
         error_logs (httpGet rt cfg senderID url req) =
           [[LStr ''Failed calling httpGet from: %s'', LVal url]] \<and>
         sent (httpGet rt cfg senderID url req) = []"
  using assms by (auto simp: httpGet_def)

theorem C9_fetch_failure_silent_witness:
  "sent (httpGet node_sample sample_config (JStr ''42'') (JStr ''http://nowhere.example'')
           (RequestError ''ENOTFOUND'')) = [] \<and>
   sent (httpGet node_sample sample_config (JStr ''42'') (JStr ''http://nowhere.example'')
           (RequestResponse 404 ''<h1>Not Found</h1>'')) = [] \<and>
   error_logs (httpGet node_sample sample_config (JStr ''42'') (JStr ''http://nowhere.example'')
           (RequestResponse 404 ''<h1>Not Found</h1>'')) =
     [[LStr ''Failed calling httpGet from: %s'', LVal (JStr ''http://nowhere.example'')]]"
  using C9_fetch_failure_silent [of "RequestError ''ENOTFOUND''" "''ENOTFOUND''" 0 "[]"
          node_sample sample_config "JStr ''42''" "JStr ''http://nowhere.example''"]
        C9_fetch_failure_silent [of "RequestResponse 404 ''<h1>Not Found</h1>''" "[]" 404
          "''<h1>Not Found</h1>''" node_sample sample_config "JStr ''42''"
          "JStr ''http://nowhere.example''"]
  by simp

section \<open>The reply format\<close>

lemma join_Cons: "join sep (x # xs) = (if xs = [] then x else x @ sep @ join sep xs)"
  by (cases xs) simp_all

lemma spec_entries_Nil: "spec_entries i rows = [] \<longleftrightarrow> rows = []"
  by (cases rows) auto

lemma forEach_body_row:
  assumes "item_row item (t, sn, l)"
  shows "forEach_body (i, tot, ls) item =
           Inr (i + 1, (if i \<noteq> 1 then tot @ ''\<newline>\<newline>'' else tot) @ spec_entry i t sn,
                ls @ [l])"
  using assms by (simp add: forEach_body_def item_row_def get_prop_def spec_entry_def)

text \<open>
  The loop from any state whose index is at least 1: the separator goes before every entry
  but the one numbered 1.
\<close>

lemma forEach_rows:
  assumes "list_all2 item_row items rows" and "1 \<le> i"
  shows "forEach (i, tot, ls) items =
           Inr (i + length items,
                (if rows = [] then tot
                 else (if i \<noteq> 1 then tot @ ''\<newline>\<newline>'' else tot) @
                      join ''\<newline>\<newline>'' (spec_entries i rows)),
                ls @ spec_links rows)"
  using assms
proof (induction items rows arbitrary: i tot ls rule: list_all2_induct)
  case Nil
  then show ?case by (simp add: spec_links_def)
next
  case (Cons item items row rows)
  obtain t sn l where row: "row = (t, sn, l)" by (cases row) auto
  have step: "forEach_body (i, tot, ls) item =
      Inr (i + 1, (if i \<noteq> 1 then tot @ ''\<newline>\<newline>'' else tot) @ spec_entry i t sn, ls @ [l])"
    using Cons.hyps(1) row by (simp add: forEach_body_row)
  show ?case
    using Cons.IH [of "i + 1"
        "(if i \<noteq> 1 then tot @ ''\<newline>\<newline>'' else tot) @ spec_entry i t sn" "ls @ [l]"]
      Cons.prems
    by (simp add: step row join_Cons spec_entries_Nil spec_links_def)
qed

text \<open>
  The loop as the handler starts it, with index 1, an empty text and no links: it builds the
  reply in the specification's format and collects the links in order.
\<close>

lemma forEach_reply_format:
  assumes "list_all2 item_row items rows"
  shows "forEach (1, [], []) items = Inr (length items + 1, spec_reply_text rows, spec_links rows)"
  using forEach_rows [OF assms, of 1 "[]" "[]"]
  by (simp add: spec_reply_text_def)

lemma forEach_long_items:
  "forEach (1, [], []) long_items =
     Inr (2, ''1. '' @ long_title @ ''\<newline>\<newline>B'', [JStr ''L1''])"
  by (simp add: long_items_def forEach_body_def get_prop_def string_of_nat.simps digit_def)

lemma forEach_two_items:
  "forEach (1, [], []) two_items =
     Inr (3, ''1. A\<newline>\<newline>B\<newline>\<newline>2. C\<newline>\<newline>D'', [JStr ''L1'', JStr ''L2''])"
  by (simp add: two_items_def forEach_body_def get_prop_def string_of_nat.simps digit_def)

lemma parse_long: "JSON_parse node_sample long_body = Inr (JObj [(''items'', JArr long_items)])"
  by (simp add: node_sample_def JSON_parse_sample_def)

lemma parse_two:
  \<open>JSON_parse node_sample
     ''{"items":[{"title":"A","snippet":"B","link":"L1"},{"title":"C","snippet":"D","link":"L2"}]}'' =
   Inr (JObj [(''items'', JArr two_items)])\<close>
  by (simp add: node_sample_def JSON_parse_sample_def long_body_def)

text \<open>
  The results branch of the \<^verbatim>\<open>try\<close> block: one console line, then \<^verbatim>\<open>sendQuickReply\<close> with the
  text cut at 2000 characters and the links the loop collected.
\<close>

lemma search_try_delivers_quick_reply:
  assumes "JSON_parse rt data = Inr obj"
    and "\<not> nullish obj"
    and "js_prop obj ''items'' = JArr items"
    and "forEach (1, [], []) items = Inr (index, total', links)"
  shows "search_try rt cfg senderID messageText data =
           (ConsoleLog [LStr (''Googled '' @ messageText @ '': '' @
                              string_of_nat (length items) @ '' results'')] #
            sendQuickReply cfg senderID (take 2000 total') links, None)"
  using assms by (simp add: search_try_def get_prop_def)

lemma two_items_rows:
  "list_all2 item_row two_items [(''A'', ''B'', JStr ''L1''), (''C'', ''D'', JStr ''L2'')]"
  by (simp add: two_items_def item_row_def)

text \<open>
  C5. When the search response parses to a value whose \<^verbatim>\<open>items\<close> is a list of items, each
  with a title text, a snippet text and a link, the handler's \<^verbatim>\<open>try\<close> block formats the reply
  as the specification says (for each item in order its 1-based index, its title and its
  snippet, blank lines between items), collects the links in the same order, and hands both
  to \<^verbatim>\<open>sendQuickReply\<close>, the text cut at 2000 characters. For the response with the two items
  A/B/L1 and C/D/L2 the text is \<^verbatim>\<open>1. A\n\nB\n\n2. C\n\nD\<close> and the links are \<^verbatim>\<open>["L1","L2"]\<close>.
\<close>

theorem C5_reply_format:
  assumes "JSON_parse rt data = Inr obj"
    and "\<not> nullish obj"
    and "js_prop obj ''items'' = JArr items"
    and "list_all2 item_row items rows"
  shows "search_try rt cfg senderID messageText data =
           (ConsoleLog [LStr (''Googled '' @ messageText @ '': '' @
                              string_of_nat (length items) @ '' results'')] #
            sendQuickReply cfg senderID (take 2000 (spec_reply_text rows)) (spec_links rows),
            None)"
  using search_try_delivers_quick_reply [OF assms(1-3) forEach_reply_format [OF assms(4)]]
  by simp

theorem C5_reply_format_witness:
  \<open>search_try node_sample sample_config (JStr ''42'') ''letters''
     ''{"items":[{"title":"A","snippet":"B","link":"L1"},{"title":"C","snippet":"D","link":"L2"}]}'' =
     (ConsoleLog [LStr ''Googled letters: 2 results''] #
      sendQuickReply sample_config (JStr ''42'')
        ''1. A\<newline>\<newline>B\<newline>\<newline>2. C\<newline>\<newline>D'' [JStr ''L1'', JStr ''L2''],
      None)\<close>
proof -
  have len: "length two_items = 2"
    by (simp add: two_items_def)
  show ?thesis
    using C5_reply_format [OF parse_two _ _ two_items_rows,
        of sample_config "JStr ''42''" "''letters''"]
    by (simp add: len spec_reply_text_def spec_entry_def spec_links_def
        string_of_nat.simps digit_def)
qed

section \<open>Truncation\<close>

text \<open>
  C6. When the response has an items array and the loop has built the reply text, the text
  delivered is its first 2000 characters if it has 2000 or more, and the whole text if it is
  shorter.
\<close>

theorem C6_truncation:
  assumes "JSON_parse rt data = Inr obj"
    and "\<not> nullish obj"
    and "js_prop obj ''items'' = JArr items"
    and "forEach (1, [], []) items = Inr (index, total', links)"
  shows "(2000 \<le> length total' \<longrightarrow>
            delivered_texts (fst (search_on_end rt cfg senderID messageText data)) =
              [take 2000 total']) \<and>
         (length total' < 2000 \<longrightarrow>
            delivered_texts (fst (search_on_end rt cfg senderID messageText data)) = [total'])"
  using assms
  by (simp add: search_on_end_def search_try_def try_catch_def and_then_def get_prop_def
      sendTypingOff_def sendQuickReply_def callSendAPI_def)

theorem C6_truncation_witness:
  \<open>length (''1. '' @ long_title @ ''\<newline>\<newline>B'') = 2506 \<and>
   delivered_texts (fst (search_on_end node_sample sample_config (JStr ''42'') ''aaa'' long_body)) =
     [''1. '' @ replicate 1997 (CHR ''a'')] \<and>
   delivered_texts (fst (search_on_end node_sample sample_config (JStr ''42'') ''letters''
     ''{"items":[{"title":"A","snippet":"B","link":"L1"},{"title":"C","snippet":"D","link":"L2"}]}'')) =
     [''1. A\<newline>\<newline>B\<newline>\<newline>2. C\<newline>\<newline>D'']\<close>
proof -
  have len: "length (''1. '' @ long_title @ ''\<newline>\<newline>B'') = 2506"
    by (simp add: long_title_def)
  have cut: "take 2000 (''1. '' @ long_title @ ''\<newline>\<newline>B'') = ''1. '' @ replicate 1997 (CHR ''a'')"
    by (simp add: long_title_def)
  have long: "delivered_texts
      (fst (search_on_end node_sample sample_config (JStr ''42'') ''aaa'' long_body)) =
      [take 2000 (''1. '' @ long_title @ ''\<newline>\<newline>B'')]"
    using C6_truncation [OF parse_long _ _ forEach_long_items,
        of sample_config "JStr ''42''" "''aaa''"] len
    by simp
  have short: \<open>delivered_texts (fst (search_on_end node_sample sample_config (JStr ''42'') ''letters''
     ''{"items":[{"title":"A","snippet":"B","link":"L1"},{"title":"C","snippet":"D","link":"L2"}]}'')) =
     [''1. A\<newline>\<newline>B\<newline>\<newline>2. C\<newline>\<newline>D'']\<close>
    using C6_truncation [OF parse_two _ _ forEach_two_items,
        of sample_config "JStr ''42''" "''letters''"]
    by simp
  show ?thesis using len long short cut by simp
qed

section \<open>Zero results\<close>

text \<open>
  C1, as the code has it. When the response parses to a value other than \<^verbatim>\<open>null\<close> whose
  \<^verbatim>\<open>items\<close> is absent or \<^verbatim>\<open>null\<close>, the one message delivered is the fixed zero-results text,
  as a plain text message.
\<close>

theorem C1_absent_or_null_items:
  assumes "JSON_parse rt data = Inr obj"
    and "\<not> nullish obj"
    and "nullish (js_prop obj ''items'')"
  shows "messages (fst (search_on_end rt cfg senderID messageText data)) =
           [TextMessage senderID zero_results_text ''DEVELOPER_DEFINED_METADATA''] \<and>
         snd (search_on_end rt cfg senderID messageText data) = None"
  using assms
  by (simp add: search_on_end_def search_try_def try_catch_def and_then_def get_prop_def
      sendTypingOff_def sendTextMessage_def callSendAPI_def messages_def)

theorem C1_absent_or_null_items_witness:
  \<open>messages (fst (search_on_end node_sample sample_config (JStr ''42'') ''cats''
      ''{"items":null}'')) =
     [TextMessage (JStr ''42'') zero_results_text ''DEVELOPER_DEFINED_METADATA''] \<and>
   messages (fst (search_on_end node_sample sample_config (JStr ''42'') ''cats'' ''{}'')) =
     [TextMessage (JStr ''42'') zero_results_text ''DEVELOPER_DEFINED_METADATA'']\<close>
proof -
  have null_items: \<open>JSON_parse node_sample ''{"items":null}'' = Inr (JObj [(''items'', JNull)])\<close>
    by (simp add: node_sample_def JSON_parse_sample_def long_body_def)
  have no_items: \<open>JSON_parse node_sample ''{}'' = Inr (JObj [])\<close>
    by (simp add: node_sample_def JSON_parse_sample_def long_body_def)
  show ?thesis
    using C1_absent_or_null_items [OF null_items, of sample_config "JStr ''42''" "''cats''"]
      C1_absent_or_null_items [OF no_items, of sample_config "JStr ''42''" "''cats''"]
    by simp
qed

text \<open>
  An empty items list is not \<^verbatim>\<open>null\<close>: the loop runs over nothing and the reply is a
  quick-reply message with an empty text and ten buttons without payload.
\<close>

theorem C1_empty_items_counterexample:
  \<open>messages (fst (search_on_end node_sample sample_config (JStr ''42'') ''cats''
      ''{"items":[]}'')) =
     [QuickReplyMessage (JStr ''42'') []
       [\<lparr>content_type = ''text'', title = ''1'', payload = JUndefined\<rparr>,
        \<lparr>content_type = ''text'', title = ''2'', payload = JUndefined\<rparr>,
        \<lparr>content_type = ''text'', title = ''3'', payload = JUndefined\<rparr>,
        \<lparr>content_type = ''text'', title = ''4'', payload = JUndefined\<rparr>,
        \<lparr>content_type = ''text'', title = ''5'', payload = JUndefined\<rparr>,
        \<lparr>content_type = ''text'', title = ''6'', payload = JUndefined\<rparr>,
        \<lparr>content_type = ''text'', title = ''7'', payload = JUndefined\<rparr>,
        \<lparr>content_type = ''text'', title = ''8'', payload = JUndefined\<rparr>,
        \<lparr>content_type = ''text'', title = ''9'', payload = JUndefined\<rparr>,
        \<lparr>content_type = ''text'', title = ''10'', payload = JUndefined\<rparr>]] \<and>
   messages (fst (search_on_end node_sample sample_config (JStr ''42'') ''cats''
      ''{"items":[]}'')) \<noteq>
     [TextMessage (JStr ''42'') zero_results_text ''DEVELOPER_DEFINED_METADATA'']\<close>
  by (simp add: search_on_end_def search_try_def try_catch_def and_then_def get_prop_def
      sendTypingOff_def sendQuickReply_def callSendAPI_def messages_def js_index_def
      node_sample_def JSON_parse_sample_def long_body_def)

section \<open>Search failures\<close>

lemma parse_html: "JSON_parse_sample ''<html>'' = Inl ''Unexpected token''"
  by (simp add: JSON_parse_sample_def long_body_def)

text \<open>
  Both failure handlers begin with a call of \<^verbatim>\<open>console.err\<close> (lines 304 and 310). Where the
  console has no such method the call throws, and the handler ends there.
\<close>

lemma failure_handlers_without_console_err:
  assumes "\<not> console_err rt"
  shows "search_catch rt cfg senderID e =
           ([], Some (TypeError ''console.err is not a function'')) \<and>
         search_on_error rt cfg senderID msg =
           ([], Some (TypeError ''console.err is not a function''))"
  using assms by (simp add: search_catch_def search_on_error_def and_then_def call_console_err_def)

text \<open>
  What the two handlers do where the call of \<^verbatim>\<open>console.err\<close> returns: the replies of
  lines 305 and 312.
\<close>

lemma failure_handlers_with_console_err:
  assumes "console_err rt"
    and "JSON_parse rt data = Inl m"
  shows "search_on_end rt cfg senderID messageText data =
           ([ConsoleLog [LStr data],
             ConsoleLog [LStr ''Turning typing indicator off''],
             SendAPI (PAGE_ACCESS_TOKEN cfg) (SenderAction senderID ''typing_off''),
             ConsoleErr [LStr (''Error: '' @ m)],
             SendAPI (PAGE_ACCESS_TOKEN cfg)
               (TextMessage senderID oops_text ''DEVELOPER_DEFINED_METADATA'')], None) \<and>
         search_on_error rt cfg senderID msg =
           ([ConsoleErr [LStr (''Error: '' @ msg)],
             ConsoleLog [LStr ''Turning typing indicator off''],
             SendAPI (PAGE_ACCESS_TOKEN cfg) (SenderAction senderID ''typing_off''),
             SendAPI (PAGE_ACCESS_TOKEN cfg)
               (TextMessage senderID (''Error: '' @ msg) ''DEVELOPER_DEFINED_METADATA'')], None)"
  using assms
  by (simp add: search_on_end_def search_on_error_def search_try_def search_catch_def
      try_catch_def and_then_def call_console_err_def sendTypingOff_def sendTextMessage_def
      callSendAPI_def)

text \<open>
  C2. On a response body that is not valid JSON, and on a network error, the handler is to
  log the error and send the sender an error reply. On Node it does neither. With the body
  \<^verbatim>\<open><html>\<close> the \<^verbatim>\<open>end\<close> handler logs the body and sends typing-off, and the \<^verbatim>\<open>catch\<close> block
  then ends in a \<^verbatim>\<open>TypeError\<close> at its call of \<^verbatim>\<open>console.err\<close>; with the network error
  \<^verbatim>\<open>ECONNRESET\<close> the \<^verbatim>\<open>error\<close> handler ends in the same \<^verbatim>\<open>TypeError\<close> at its first statement.
  In both runs no message is sent and no error is written to the console.
\<close>

theorem C2_error_reply_not_sent:
  "search_on_end node_sample sample_config (JStr ''42'') ''cats'' ''<html>'' =
     ([ConsoleLog [LStr ''<html>''],
       ConsoleLog [LStr ''Turning typing indicator off''],
       SendAPI (JStr ''page-token'') (SenderAction (JStr ''42'') ''typing_off'')],
      Some (TypeError ''console.err is not a function'')) \<and>
   search_on_error node_sample sample_config (JStr ''42'') ''ECONNRESET'' =
     ([], Some (TypeError ''console.err is not a function'')) \<and>
   messages (fst (search_on_end node_sample sample_config (JStr ''42'') ''cats'' ''<html>'')) = [] \<and>
   error_logs (fst (search_on_end node_sample sample_config (JStr ''42'') ''cats'' ''<html>'')) = [] \<and>
   messages (fst (search_on_error node_sample sample_config (JStr ''42'') ''ECONNRESET'')) = [] \<and>
   error_logs (fst (search_on_error node_sample sample_config (JStr ''42'') ''ECONNRESET'')) = []"
  by (simp add: search_on_end_def search_on_error_def search_try_def search_catch_def
      try_catch_def and_then_def call_console_err_def sendTypingOff_def callSendAPI_def
      messages_def node_sample_def sample_config_def parse_html)

section \<open>Routing\<close>

lemma truthy_not_nullish: "truthy v \<Longrightarrow> \<not> nullish v"
  by (cases v) auto

lemma fetch_calls_httpGet: "fetch_calls (httpGet rt cfg senderID url req) = [url]"
  by (cases req) (simp_all add: httpGet_def sendTextMessage_def callSendAPI_def Let_def)

lemma search_calls_httpGet: "search_calls (httpGet rt cfg senderID url req) = []"
  by (cases req) (simp_all add: httpGet_def sendTextMessage_def callSendAPI_def Let_def)

lemma sender_actions_httpGet: "sender_actions (httpGet rt cfg senderID url req) = []"
  by (cases req) (simp_all add: httpGet_def sendTextMessage_def callSendAPI_def Let_def)

lemma before_fetch_httpGet:
  "before_fetch (httpGet rt cfg senderID url req) =
     [ConsoleLog [LStr ''httpGet: Fetching: %s'', LVal url]]"
  by (simp add: httpGet_def)

text \<open>
  C7, as the code has it. A message event that is not an echo: when it carries no quick
  reply and its text starts with \<^verbatim>\<open>http://\<close> or \<^verbatim>\<open>https://\<close>, the page fetch is called once,
  with that text; when it carries a quick reply, the page fetch is called once, with the
  quick reply's payload. In both cases the search is not called.
\<close>

theorem C7_fetch_routing:
  assumes "truthy (message ev)"
    and "\<not> truthy (js_prop (message ev) ''is_echo'')"
  shows "(\<not> truthy (js_prop (message ev) ''quick_reply'') \<and>
          js_prop (message ev) ''text'' = JStr s \<and>
          (startsWith s ''http://'' \<or> startsWith s ''https://'') \<longrightarrow>
            fetch_calls (fst (receivedMessage rt cfg ev net req)) = [JStr s] \<and>
            search_calls (fst (receivedMessage rt cfg ev net req)) = []) \<and>
         (truthy (js_prop (message ev) ''quick_reply'') \<longrightarrow>
            fetch_calls (fst (receivedMessage rt cfg ev net req)) =
              [js_prop (js_prop (message ev) ''quick_reply'') ''payload''] \<and>
            search_calls (fst (receivedMessage rt cfg ev net req)) = [])"
proof -
  have m: "\<not> nullish (message ev)"
    using assms(1) by (rule truthy_not_nullish)
  have url: "startsWith s ''http://'' \<or> startsWith s ''https://'' \<Longrightarrow> s \<noteq> []"
    by (auto simp: startsWith_def)
  show ?thesis
    using m assms(2) url
    by (auto simp: receivedMessage_def Let_def and_then_def sendTypingOn_def callSendAPI_def
        fetch_calls_httpGet search_calls_httpGet)
qed

theorem C7_fetch_routing_witness:
  "fetch_calls (fst (receivedMessage node_sample sample_config
     (sample_event (text_message ''https://example.com'')) HttpsPending
     (RequestResponse 200 ''<p>Hello <b>World</b></p>''))) = [JStr ''https://example.com''] \<and>
   search_calls (fst (receivedMessage node_sample sample_config
     (sample_event (text_message ''https://example.com'')) HttpsPending
     (RequestResponse 200 ''<p>Hello <b>World</b></p>''))) = [] \<and>
   fetch_calls (fst (receivedMessage node_sample sample_config
     (sample_event (quick_reply_message ''1'' ''https://example.com'')) HttpsPending
     (RequestResponse 200 ''<p>Hello <b>World</b></p>''))) = [JStr ''https://example.com''] \<and>
   search_calls (fst (receivedMessage node_sample sample_config
     (sample_event (quick_reply_message ''1'' ''https://example.com'')) HttpsPending
     (RequestResponse 200 ''<p>Hello <b>World</b></p>''))) = []"
  using C7_fetch_routing [of "sample_event (text_message ''https://example.com'')"
      "''https://example.com''" node_sample sample_config HttpsPending
      "RequestResponse 200 ''<p>Hello <b>World</b></p>''"]
    C7_fetch_routing [of "sample_event (quick_reply_message ''1'' ''https://example.com'')"
      "''1''" node_sample sample_config HttpsPending
      "RequestResponse 200 ''<p>Hello <b>World</b></p>''"]
  by (simp add: sample_event_def text_message_def quick_reply_message_def startsWith_def)

text \<open>
  A quick reply comes first: an event whose text is a URL and which carries a quick reply
  with another URL has the payload fetched, not the text.
\<close>

theorem C7_fetch_routing_counterexample:
  "fetch_calls (fst (receivedMessage node_sample sample_config
     (sample_event (quick_reply_message ''http://a.example'' ''http://b.example'')) HttpsPending
     RequestPending)) = [JStr ''http://b.example''] \<and>
   fetch_calls (fst (receivedMessage node_sample sample_config
     (sample_event (quick_reply_message ''http://a.example'' ''http://b.example'')) HttpsPending
     RequestPending)) \<noteq> [JStr ''http://a.example'']"
  by (simp add: receivedMessage_def and_then_def Let_def httpGet_def
      sample_event_def quick_reply_message_def)

text \<open>
  C10. For a message event that is not an echo, carries no quick reply and has a text that
  starts with \<^verbatim>\<open>http://\<close> or \<^verbatim>\<open>https://\<close>: typing-on is sent to the sender before the page
  request, and it is the only sender action of the whole run, so no typing-off is sent,
  whatever becomes of the request.
\<close>

theorem C10_typing_stays_on:
  assumes "truthy (message ev)"
    and "\<not> truthy (js_prop (message ev) ''is_echo'')"
    and "\<not> truthy (js_prop (message ev) ''quick_reply'')"
    and "js_prop (message ev) ''text'' = JStr s"
    and "startsWith s ''http://'' \<or> startsWith s ''https://''"
  shows "sender_actions (before_fetch (fst (receivedMessage rt cfg ev net req))) =
           [(sender_id ev, ''typing_on'')] \<and>
         fetch_calls (fst (receivedMessage rt cfg ev net req)) = [JStr s] \<and>
         sender_actions (fst (receivedMessage rt cfg ev net req)) =
           [(sender_id ev, ''typing_on'')]"
proof -
  have m: "\<not> nullish (message ev)"
    using assms(1) by (rule truthy_not_nullish)
  have s: "s \<noteq> []"
    using assms(5) by (auto simp: startsWith_def)
  show ?thesis
    using m s assms(2-5)
    by (auto simp: receivedMessage_def Let_def and_then_def sendTypingOn_def callSendAPI_def
        fetch_calls_httpGet sender_actions_httpGet before_fetch_httpGet)
qed

theorem C10_typing_stays_on_witness:
  "sender_actions (before_fetch (fst (receivedMessage node_sample sample_config
     (sample_event (text_message ''http://phmountains.com'')) HttpsPending
     (RequestResponse 200 ''<p>Hello <b>World</b></p>'')))) = [(JStr ''42'', ''typing_on'')] \<and>
   sender_actions (fst (receivedMessage node_sample sample_config
     (sample_event (text_message ''http://phmountains.com'')) HttpsPending
     (RequestResponse 200 ''<p>Hello <b>World</b></p>''))) = [(JStr ''42'', ''typing_on'')]"
  using C10_typing_stays_on [of "sample_event (text_message ''http://phmountains.com'')"
      "''http://phmountains.com''" node_sample sample_config HttpsPending
      "RequestResponse 200 ''<p>Hello <b>World</b></p>''"]
  by (simp add: sample_event_def text_message_def startsWith_def)

section \<open>The typing signals around a search\<close>

lemma search_try_quiet:
  "sender_actions (fst (search_try rt cfg senderID messageText data)) = [] \<and>
   search_calls (fst (search_try rt cfg senderID messageText data)) = []"
  by (auto simp: search_try_def sendQuickReply_def sendTextMessage_def callSendAPI_def
      split: sum.splits jsval.splits prod.splits)

lemma search_catch_quiet:
  "sender_actions (fst (search_catch rt cfg senderID e)) = [] \<and>
   search_calls (fst (search_catch rt cfg senderID e)) = []"
  by (simp add: search_catch_def and_then_def call_console_err_def sendTextMessage_def
      callSendAPI_def)

text \<open>
  Whatever the body and whatever the \<^verbatim>\<open>try\<close> block makes of it, the \<^verbatim>\<open>end\<close> handler sends
  typing-off once and no other sender action.
\<close>

lemma search_on_end_typing_off:
  "sender_actions (fst (search_on_end rt cfg senderID messageText data)) =
     [(senderID, ''typing_off'')] \<and>
   search_calls (fst (search_on_end rt cfg senderID messageText data)) = []"
proof -
  have a: "sender_actions (xs @ ys) = sender_actions xs @ sender_actions ys" for xs ys
    by (induction xs rule: sender_actions.induct) simp_all
  have b: "search_calls (xs @ ys) = search_calls xs @ search_calls ys" for xs ys
    by (induction xs rule: search_calls.induct) simp_all
  show ?thesis
    using search_try_quiet [of rt cfg senderID messageText data]
      search_catch_quiet [of rt cfg senderID]
    by (auto simp: search_on_end_def try_catch_def and_then_def sendTypingOff_def
        callSendAPI_def a b split: option.splits)
qed

lemma search_on_error_actions:
  "sender_actions (fst (search_on_error rt cfg senderID msg)) =
     (if console_err rt then [(senderID, ''typing_off'')] else []) \<and>
   search_calls (fst (search_on_error rt cfg senderID msg)) = []"
  by (simp add: search_on_error_def and_then_def call_console_err_def sendTypingOff_def
      sendTextMessage_def callSendAPI_def)

lemma search_callbacks_no_search:
  "search_calls (fst (case net of
       HttpsPending \<Rightarrow> ([], None)
     | HttpsEnd chunks \<Rightarrow>
         search_on_end rt cfg senderID s (foldl (\<lambda>data chunk. data @ chunk) [] chunks)
     | HttpsError msg \<Rightarrow> search_on_error rt cfg senderID msg)) = []"
  by (cases net) (simp_all add: search_on_end_typing_off search_on_error_actions)

text \<open>
  C4, as the code has it. For a message event that is not an echo, carries no quick reply
  and has a non-empty text that starts with neither \<^verbatim>\<open>http://\<close> nor \<^verbatim>\<open>https://\<close>: the search
  is requested exactly once, for \<^verbatim>\<open>SEARCH_URL\<close> followed by the text, and typing-on is the
  one sender action before the request, whatever becomes of it; when the response has been
  received to its end, typing-off is the one sender action after the request, whatever the
  response holds; and on a network error the same is true where the handler's call of
  \<^verbatim>\<open>console.err\<close> returns.
\<close>

theorem C4_search_bracket:
  assumes "truthy (message ev)"
    and "\<not> truthy (js_prop (message ev) ''is_echo'')"
    and "\<not> truthy (js_prop (message ev) ''quick_reply'')"
    and "js_prop (message ev) ''text'' = JStr s"
    and "s \<noteq> []"
    and "\<not> startsWith s ''http://''" and "\<not> startsWith s ''https://''"
    and "ToString (SEARCH_URL cfg) = Some base"
  shows "search_calls (fst (receivedMessage rt cfg ev net req)) = [base @ s] \<and>
         sender_actions (before_search (fst (receivedMessage rt cfg ev net req))) =
           [(sender_id ev, ''typing_on'')] \<and>
         sender_actions (after_search (fst (receivedMessage rt cfg ev (HttpsEnd chunks) req))) =
           [(sender_id ev, ''typing_off'')] \<and>
         (console_err rt \<longrightarrow>
            sender_actions (after_search (fst (receivedMessage rt cfg ev (HttpsError msg) req))) =
              [(sender_id ev, ''typing_off'')])"
proof -
  have m: "\<not> nullish (message ev)"
    using assms(1) by (rule truthy_not_nullish)
  have run: "fst (receivedMessage rt cfg ev n req) =
      [ConsoleLog [LStr ''Received message for user %d and page %d at %d with message:'',
                   LVal (sender_id ev), LVal (recipient_id ev), LVal (timestamp ev)],
       ConsoleLog [LJson (message ev)],
       ConsoleLog [LStr ''Turning typing indicator on''],
       SendAPI (PAGE_ACCESS_TOKEN cfg) (SenderAction (sender_id ev) ''typing_on''),
       HttpsGet (base @ s)] @
      fst (case n of
             HttpsPending \<Rightarrow> ([], None)
           | HttpsEnd chunks \<Rightarrow>
               search_on_end rt cfg (sender_id ev) s
                 (foldl (\<lambda>data chunk. data @ chunk) [] chunks)
           | HttpsError msg \<Rightarrow> search_on_error rt cfg (sender_id ev) msg)" for n
    using m assms(2-8)
    by (simp add: receivedMessage_def Let_def and_then_def sendTypingOn_def callSendAPI_def
        https_get_search_def)
  have calls: "search_calls (fst (receivedMessage rt cfg ev net req)) = [base @ s]"
    by (simp add: run search_callbacks_no_search)
  have before: "sender_actions (before_search (fst (receivedMessage rt cfg ev net req))) =
      [(sender_id ev, ''typing_on'')]"
    by (simp add: run)
  have after_end:
    "sender_actions (after_search (fst (receivedMessage rt cfg ev (HttpsEnd chunks) req))) =
      [(sender_id ev, ''typing_off'')]"
    by (simp add: run search_on_end_typing_off)
  have after_error: "console_err rt \<Longrightarrow>
      sender_actions (after_search (fst (receivedMessage rt cfg ev (HttpsError msg) req))) =
      [(sender_id ev, ''typing_off'')]"
    by (simp add: run search_on_error_actions)
  show ?thesis
    using calls before after_end after_error by blast
qed

theorem C4_search_bracket_witness:
  \<open>search_calls (fst (receivedMessage node_sample sample_config
     (sample_event (text_message ''cats'')) (HttpsEnd [''{"items":'', ''null}'']) RequestPending)) =
     [''https://search.example/?q=cats''] \<and>
   sender_actions (before_search (fst (receivedMessage node_sample sample_config
     (sample_event (text_message ''cats'')) (HttpsEnd [''{"items":'', ''null}'']) RequestPending))) =
     [(JStr ''42'', ''typing_on'')] \<and>
   sender_actions (after_search (fst (receivedMessage node_sample sample_config
     (sample_event (text_message ''cats'')) (HttpsEnd [''{"items":'', ''null}'']) RequestPending))) =
     [(JStr ''42'', ''typing_off'')] \<and>
   sender_actions (after_search (fst (receivedMessage node_sample sample_config
     (sample_event (text_message ''cats'')) (HttpsEnd [''<html>'']) RequestPending))) =
     [(JStr ''42'', ''typing_off'')] \<and>
   sender_actions (after_search (fst (receivedMessage patched_sample sample_config
     (sample_event (text_message ''cats'')) (HttpsError ''ECONNRESET'') RequestPending))) =
     [(JStr ''42'', ''typing_off'')]\<close>
  using C4_search_bracket [of "sample_event (text_message ''cats'')" "''cats''"
      sample_config "''https://search.example/?q=''" node_sample
      "HttpsEnd [''{\"items\":'', ''null}'']" RequestPending "[''{\"items\":'', ''null}'']"]
    C4_search_bracket [of "sample_event (text_message ''cats'')" "''cats''"
      sample_config "''https://search.example/?q=''" node_sample
      "HttpsEnd [''<html>'']" RequestPending "[''<html>'']"]
    C4_search_bracket [of "sample_event (text_message ''cats'')" "''cats''"
      sample_config "''https://search.example/?q=''" patched_sample
      "HttpsError ''ECONNRESET''" RequestPending "[]" "''ECONNRESET''"]
  by (simp add: sample_event_def text_message_def sample_config_def startsWith_def
      patched_sample_def)

text \<open>
  Three events the statement without those conditions would cover. The tap on quick-reply
  button 1 arrives as a message with text \<^verbatim>\<open>1\<close> and a quick reply: it is fetched, with no
  search and no typing signal. A message with an empty text starts nothing. And on Node a
  network error of the search leaves typing-on as the only sender action.
\<close>

theorem C4_search_bracket_counterexample:
  "search_calls (fst (receivedMessage node_sample sample_config
     (sample_event (quick_reply_message ''1'' ''https://example.com'')) HttpsPending
     RequestPending)) = [] \<and>
   sender_actions (fst (receivedMessage node_sample sample_config
     (sample_event (quick_reply_message ''1'' ''https://example.com'')) HttpsPending
     RequestPending)) = [] \<and>
   fetch_calls (fst (receivedMessage node_sample sample_config
     (sample_event (quick_reply_message ''1'' ''https://example.com'')) HttpsPending
     RequestPending)) = [JStr ''https://example.com''] \<and>
   search_calls (fst (receivedMessage node_sample sample_config
     (sample_event (text_message [])) HttpsPending RequestPending)) = [] \<and>
   sender_actions (fst (receivedMessage node_sample sample_config
     (sample_event (text_message ''cats'')) (HttpsError ''ECONNRESET'') RequestPending)) =
     [(JStr ''42'', ''typing_on'')]"
  by (simp add: receivedMessage_def https_get_search_def search_on_error_def and_then_def
      call_console_err_def sendTypingOn_def callSendAPI_def startsWith_def Let_def httpGet_def
      node_sample_def sample_config_def sample_event_def text_message_def
      quick_reply_message_def)

end
